theory Spec2Isabelle
  imports Complex_Main
begin

section \<open>The coin-toss notebook: data and library operations\<close>

text \<open>
  The notebook \<^verbatim>\<open>Lesson 0 - Coin Toss.ipynb\<close> works on flat numeric arrays.  Arrays are
  lists of reals here: the embedding is in exact arithmetic, so rounding of IEEE doubles
  is outside its reach.  What numpy reports as an exception, or as an array holding
  \<^verbatim>\<open>nan\<close> or \<^verbatim>\<open>inf\<close>, is an error value of the model.
\<close>

datatype np_error = IndexError | NameError | NonFinite

text \<open>
  \<^verbatim>\<open>np.linspace(start, stop, num)\<close> with the default \<^verbatim>\<open>endpoint=True\<close>: the points
  \<^verbatim>\<open>arange(0, num) * step + start\<close> with \<^verbatim>\<open>step = (stop - start) / (num - 1)\<close>, whose last
  entry is then overwritten by \<^verbatim>\<open>stop\<close> when \<^verbatim>\<open>num > 1\<close>.
\<close>

definition linspace :: "real \<Rightarrow> real \<Rightarrow> nat \<Rightarrow> real list" where
  "linspace start stop num =
     (if num = 0 then []
      else if num = 1 then [start]
      else map (\<lambda>i. real i * ((stop - start) / real (num - 1)) + start) [0..<num - 1] @ [stop])"

text \<open>
  Indexing an array at a position it does not have raises \<^verbatim>\<open>IndexError\<close>.
\<close>

definition item :: "real list \<Rightarrow> nat \<Rightarrow> np_error + real" where
  "item xs i = (if i < length xs then Inr (xs ! i) else Inl IndexError)"

text \<open>
  \<^verbatim>\<open>np.zeros(n)\<close>, and the slice assignment \<^verbatim>\<open>xs[:k] = v\<close>, which overwrites the first
  \<open>k\<close> entries (all of them when the array is shorter).
\<close>

definition zeros :: "nat \<Rightarrow> real list" where
  "zeros n = replicate n 0"

definition assign_prefix :: "real list \<Rightarrow> nat \<Rightarrow> real \<Rightarrow> real list" where
  "assign_prefix xs k v = replicate (min k (length xs)) v @ drop k xs"

text \<open>
  \<^verbatim>\<open>np.mean\<close> of an empty array is \<^verbatim>\<open>nan\<close> (with a warning), not an exception.
\<close>

definition np_mean :: "real list \<Rightarrow> np_error + real" where
  "np_mean xs = (if xs = [] then Inl NonFinite else Inr (sum_list xs / real (length xs)))"

section \<open>The notebook's variables\<close>

text \<open>
  The cells communicate through the kernel's global names.  A name is unbound (\<open>None\<close>)
  until a cell assigns it; reading an unbound name raises \<^verbatim>\<open>NameError\<close>.
\<close>

record notebook =
  alpha :: "int option"
  beta :: "int option"
  y_obs :: "real list option"
  niter :: "nat option"
  trace :: "real list option"
  theta :: "real list option"
  post_theta :: "real list option"
  C :: "real option"

definition fresh :: notebook where
  "fresh = \<lparr>alpha = None, beta = None, y_obs = None, niter = None, trace = None,
            theta = None, post_theta = None, C = None\<rparr>"

section \<open>The model cell\<close>

text \<open>
  Lines 104 to 114.  The draws come from \<^verbatim>\<open>pm.sample(niter)\<close>, a sampler of the pymc3
  library; what it returned for \<^verbatim>\<open>\<theta>\<close> is the parameter \<open>draws\<close>.
\<close>

definition model_cell :: "real list \<Rightarrow> notebook \<Rightarrow> notebook" where
  "model_cell draws s =
     s\<lparr>alpha := Some 2, beta := Some 3,
       y_obs := Some (assign_prefix (zeros 10) 7 1),
       niter := Some 10000,
       trace := Some draws\<rparr>"

section \<open>The closed-form cell\<close>

text \<open>
  Line 127, \<^verbatim>\<open>post_theta = (theta**9)*(1-theta)**6\<close>, applies one scalar function to every
  grid point.
\<close>

definition post_theta_at :: "real \<Rightarrow> real" where
  "post_theta_at t = t ^ 9 * (1 - t) ^ 6"

definition unnormalised :: "real list \<Rightarrow> real list" where
  "unnormalised th = map post_theta_at th"

text \<open>
  Line 128, \<^verbatim>\<open>C = np.sum(post_theta*(theta[1]-theta[0]))\<close>: the left-rectangle sum of a
  density vector over a grid, with the step read off the first two grid points.
\<close>

definition riemann :: "real list \<Rightarrow> real list \<Rightarrow> np_error + real" where
  "riemann th p =
     (case item th 1 of Inl e \<Rightarrow> Inl e
      | Inr t1 \<Rightarrow> (case item th 0 of Inl e \<Rightarrow> Inl e
      | Inr t0 \<Rightarrow> Inr (sum_list (map (\<lambda>x. x * (t1 - t0)) p))))"

text \<open>
  Line 129, \<^verbatim>\<open>post_theta = post_theta/C\<close>: numpy divides elementwise; a zero divisor does
  not raise but fills the array with \<^verbatim>\<open>nan\<close> and \<^verbatim>\<open>inf\<close>.
\<close>

definition divide_by :: "real list \<Rightarrow> real \<Rightarrow> np_error + real list" where
  "divide_by p c = (if c = 0 \<and> p \<noteq> [] then Inl NonFinite else Inr (map (\<lambda>x. x / c) p))"

text \<open>
  Lines 126 to 129 in order.  The cell reads no name it has not assigned itself.
\<close>

definition closed_form_cell :: "notebook \<Rightarrow> np_error + notebook" where
  "closed_form_cell s =
     (let th = linspace 0 1 1000;
          p = unnormalised th
      in case riemann th p of Inl e \<Rightarrow> Inl e
         | Inr c \<Rightarrow> (case divide_by p c of Inl e \<Rightarrow> Inl e
         | Inr q \<Rightarrow> Inr (s\<lparr>theta := Some th, post_theta := Some q, C := Some c\<rparr>)))"

section \<open>The plot cell and the mean cell\<close>

text \<open>
  Line 149, \<^verbatim>\<open>plt.hist(trace['\<theta>'][1000:],100, normed='true')\<close>: the samples handed to the
  histogram and the number of bins.  A slice past the end of an array is empty.
\<close>

definition hist_cell :: "notebook \<Rightarrow> np_error + real list \<times> nat" where
  "hist_cell s = (case trace s of None \<Rightarrow> Inl NameError | Some tr \<Rightarrow> Inr (drop 1000 tr, 100))"

text \<open>
  Line 178, \<^verbatim>\<open>np.mean(trace['\<theta>'][1000:])\<close>: the number the notebook reports.
\<close>

definition mean_cell :: "notebook \<Rightarrow> np_error + real" where
  "mean_cell s = (case trace s of None \<Rightarrow> Inl NameError | Some tr \<Rightarrow> np_mean (drop 1000 tr))"

section \<open>Quantities of the specification that the notebook does not compute\<close>

text \<open>
  Modelled from the spec: the conjugate update of the closed-form evaluator, "\<open>\<alpha>' = \<alpha> +\<close>
  (count of successes), \<open>\<beta>' = \<beta> +\<close> (count of failures)".  The notebook has no code for
  it: line 127 holds the exponents 9 and 6 as literals.
\<close>

definition successes :: "real list \<Rightarrow> nat" where
  "successes ys = length (filter (\<lambda>y. y = 1) ys)"

definition failures :: "real list \<Rightarrow> nat" where
  "failures ys = length (filter (\<lambda>y. y = 0) ys)"

definition posterior_params :: "real \<Rightarrow> real \<Rightarrow> real list \<Rightarrow> real \<times> real" where
  "posterior_params a b ys = (a + real (successes ys), b + real (failures ys))"

text \<open>
  Modelled from the spec: the mean of a normalised grid density, "computed as the Riemann
  sum \<open>\<Sum> \<theta>\<^sub>i \<cdot> p(\<theta>\<^sub>i) \<cdot> \<Delta>\<theta>\<close> over the same grid".  The notebook never forms this sum; it
  is written here with the left-rectangle rule of line 128.
\<close>

definition grid_mean :: "real list \<Rightarrow> real list \<Rightarrow> np_error + real" where
  "grid_mean th q = riemann th (map2 (\<lambda>t x. t * x) th q)"

text \<open>
  An integer sum used to evaluate the grid mean of the script: the terms
  \<open>(100 i - 59 \<cdot> 999) i\<^sup>9 (999 - i)\<^sup>6\<close> for \<open>n\<close> consecutive indices from \<open>i\<close> on, added to \<open>acc\<close>.
\<close>

definition weight :: "int \<Rightarrow> int" where
  "weight i = (100 * i - 58941) * i ^ 9 * (999 - i) ^ 6"

fun wacc :: "nat \<Rightarrow> int \<Rightarrow> int \<Rightarrow> int" where
  "wacc 0 i acc = acc"
| "wacc (Suc n) i acc = wacc n (i + 1) (acc + weight i)"

section \<open>Basic facts about the grid\<close>

lemma linspace_length: "length (linspace a b n) = n"
  by (cases n) (simp_all add: linspace_def)

lemma linspace_nth:
  assumes "2 \<le> n" and "i < n"
  shows "linspace a b n ! i = real i * ((b - a) / real (n - 1)) + a"
proof (cases "i < n - 1")
  case True
  with assms show ?thesis by (simp add: linspace_def nth_append)
next
  case False
  with assms have i: "i = n - 1" by simp
  from assms have "real (n - 1) \<noteq> 0" by simp
  with assms i show ?thesis by (simp add: linspace_def nth_append)
qed

lemma unit_grid_nth:
  assumes "2 \<le> n" and "i < n"
  shows "linspace 0 1 n ! i = real i / real (n - 1)"
  using linspace_nth [OF assms, of 0 1] by simp

lemma unit_grid_step:
  assumes "2 \<le> n"
  shows "2 \<le> length (linspace 0 1 n) \<and> linspace 0 1 n ! 0 \<noteq> linspace 0 1 n ! 1"
  using assms by (simp add: linspace_length unit_grid_nth)

section \<open>Left-rectangle sums\<close>

lemma sum_list_scale: "sum_list (map (\<lambda>x. x * d) p) = sum_list p * (d::real)"
  by (induction p) (simp_all add: algebra_simps)

lemma sum_list_div: "sum_list (map (\<lambda>x. x / c) p) = sum_list p / (c::real)"
  by (induction p) (simp_all add: add_divide_distrib)

lemma riemann_eq:
  "2 \<le> length th \<Longrightarrow> riemann th p = Inr (sum_list p * (th ! 1 - th ! 0))"
  by (auto simp add: riemann_def item_def sum_list_scale)

lemma riemann_short: "length th < 2 \<Longrightarrow> riemann th p = Inl IndexError"
  by (auto simp add: riemann_def item_def)

lemma sum_list_pos_real:
  assumes "\<forall>x\<in>set p. 0 \<le> (x::real)" and "\<exists>x\<in>set p. x \<noteq> 0"
  shows "0 < sum_list p"
  using assms
proof (induction p)
  case Nil
  then show ?case by simp
next
  case (Cons a p)
  have nn: "0 \<le> sum_list p" using Cons.prems(1) by (simp add: sum_list_nonneg)
  show ?case
  proof (cases "a = 0")
    case True
    with Cons show ?thesis by auto
  next
    case False
    with Cons.prems(1) have "0 < a" by simp
    with nn show ?thesis by simp
  qed
qed

text \<open>
  Claim C4.  Take any grid with at least two points whose first two points differ, and any
  density vector with no negative entry and some entry that is not zero.  Then line 128
  returns a constant \<open>c\<close> that is not zero, line 129 divides by it without producing
  \<^verbatim>\<open>nan\<close> or \<^verbatim>\<open>inf\<close>, and the left-rectangle sum of the divided vector over the same grid
  is exactly 1.
\<close>

theorem normalised_integrates_to_one:
  assumes "2 \<le> length th" and "th ! 0 \<noteq> th ! 1"
    and "\<forall>x\<in>set p. 0 \<le> x" and "\<exists>x\<in>set p. x \<noteq> 0"
  shows "\<exists>c q. riemann th p = Inr c \<and> c \<noteq> 0 \<and> divide_by p c = Inr q \<and> riemann th q = Inr 1"
proof -
  let ?d = "th ! 1 - th ! 0"
  let ?c = "sum_list p * ?d"
  have d: "?d \<noteq> 0" using assms(2) by simp
  have s: "0 < sum_list p" using assms(3,4) by (rule sum_list_pos_real)
  have c: "?c \<noteq> 0" using d s by simp
  have r: "riemann th p = Inr ?c" using assms(1) by (rule riemann_eq)
  have q: "divide_by p ?c = Inr (map (\<lambda>x. x / ?c) p)" using c by (simp add: divide_by_def)
  have "riemann th (map (\<lambda>x. x / ?c) p) = Inr (sum_list p / ?c * ?d)"
    using assms(1) by (simp add: riemann_eq sum_list_div)
  also have "sum_list p / ?c * ?d = 1" using c by simp
  finally show ?thesis using r q c by blast
qed

text \<open>
  The statement at the grid \<open>[0, 1/2, 1]\<close> and the density vector \<open>[0, 3, 1]\<close>.
\<close>

theorem normalised_integrates_to_one_witness:
  "2 \<le> length [0, 1/2, 1::real] \<and> [0, 1/2, 1::real] ! 0 \<noteq> [0, 1/2, 1] ! 1
   \<and> list_all (\<lambda>x. 0 \<le> x) [0, 3, 1::real] \<and> list_ex (\<lambda>x. x \<noteq> 0) [0, 3, 1::real]
   \<and> riemann [0, 1/2, 1] [0, 3, 1] = Inr 2
   \<and> divide_by [0, 3, 1] 2 = Inr [0, 3/2, 1/2]
   \<and> riemann [0, 1/2, 1] [0, 3/2, 1/2] = Inr 1"
  using normalised_integrates_to_one [of "[0, 1/2, 1]" "[0, 3, 1]"]
  by (simp add: riemann_def item_def divide_by_def)

section \<open>The grid and the density of the script\<close>

lemma unit_grid_set:
  assumes "2 \<le> n" and "x \<in> set (linspace 0 1 n)"
  shows "0 \<le> x \<and> x \<le> 1"
proof -
  from assms(2) obtain i where i: "i < n" and x: "x = linspace 0 1 n ! i"
    by (auto simp add: in_set_conv_nth linspace_length)
  from assms(1) i have "x = real i / real (n - 1)" unfolding x by (rule unit_grid_nth)
  moreover from i assms(1) have "real i \<le> real (n - 1)" by simp
  moreover from assms(1) have "0 < real (n - 1)" by simp
  ultimately show ?thesis by simp
qed

lemma post_theta_at_range:
  assumes "0 \<le> t" and "t \<le> 1"
  shows "0 \<le> post_theta_at t \<and> post_theta_at t \<le> 1"
proof -
  have a: "0 \<le> t ^ 9" "t ^ 9 \<le> 1" using assms by (simp_all add: power_le_one)
  have b: "0 \<le> (1 - t) ^ 6" "(1 - t) ^ 6 \<le> 1" using assms by (simp_all add: power_le_one)
  from a b have "t ^ 9 * (1 - t) ^ 6 \<le> 1" by (simp add: mult_le_one)
  with a b show ?thesis by (simp add: post_theta_at_def)
qed

lemma script_grid_nth: "i < 1000 \<Longrightarrow> linspace 0 1 1000 ! i = real i / 999"
  using unit_grid_nth [of 1000 i] by simp

lemma script_unnormalised_nth:
  "i < 1000 \<Longrightarrow> unnormalised (linspace 0 1 1000) ! i = post_theta_at (real i / 999)"
  by (simp add: unnormalised_def linspace_length script_grid_nth)

lemma script_unnormalised_range:
  assumes "x \<in> set (unnormalised (linspace 0 1 1000))"
  shows "0 \<le> x \<and> x \<le> 1"
proof -
  from assms obtain t where t: "t \<in> set (linspace 0 1 1000)" and x: "x = post_theta_at t"
    by (auto simp add: unnormalised_def)
  from t have "0 \<le> t \<and> t \<le> 1" by (intro unit_grid_set [of 1000]) simp_all
  then show ?thesis unfolding x by (simp add: post_theta_at_range)
qed

lemma script_sum_pos: "0 < sum_list (unnormalised (linspace 0 1 1000))"
proof (rule sum_list_pos_real)
  show "\<forall>x\<in>set (unnormalised (linspace 0 1 1000)). 0 \<le> x"
    using script_unnormalised_range by blast
  have "unnormalised (linspace 0 1 1000) ! 1 \<in> set (unnormalised (linspace 0 1 1000))"
    by (rule nth_mem) (simp add: unnormalised_def linspace_length)
  moreover have "unnormalised (linspace 0 1 1000) ! 1 \<noteq> 0"
    by (simp add: script_unnormalised_nth post_theta_at_def)
  ultimately show "\<exists>x\<in>set (unnormalised (linspace 0 1 1000)). x \<noteq> 0" by blast
qed

lemma script_riemann:
  "riemann (linspace 0 1 1000) p = Inr (sum_list p / 999)"
  by (simp add: riemann_eq linspace_length script_grid_nth)

lemma closed_form_cell_eq:
  "closed_form_cell s =
     Inr (s\<lparr>theta := Some (linspace 0 1 1000),
            post_theta := Some (map (\<lambda>x. x / (sum_list (unnormalised (linspace 0 1 1000)) / 999))
                                  (unnormalised (linspace 0 1 1000))),
            C := Some (sum_list (unnormalised (linspace 0 1 1000)) / 999)\<rparr>)"
  using script_sum_pos by (simp add: closed_form_cell_def script_riemann divide_by_def Let_def)

text \<open>
  Claim C8.  From any state the closed-form cell ends without error.  Its grid starts at 0
  and ends at 1; the unnormalised density is 0 at both ends and between 0 and 1 at every
  grid point; the constant \<open>C\<close> is strictly positive, so the division of line 129 is by a
  number that is not zero and stores \<open>post_theta / C\<close>.
\<close>

theorem closed_form_finite:
  "\<exists>th p c. th = linspace 0 1 1000 \<and> p = unnormalised th
     \<and> closed_form_cell s =
         Inr (s\<lparr>theta := Some th, post_theta := Some (map (\<lambda>x. x / c) p), C := Some c\<rparr>)
     \<and> th ! 0 = 0 \<and> th ! 999 = 1 \<and> p ! 0 = 0 \<and> p ! 999 = 0
     \<and> (\<forall>x\<in>set p. 0 \<le> x \<and> x \<le> 1)
     \<and> riemann th p = Inr c \<and> 0 < c"
proof -
  let ?th = "linspace 0 1 1000"
  let ?p = "unnormalised ?th"
  let ?c = "sum_list ?p / 999"
  have 1: "closed_form_cell s =
         Inr (s\<lparr>theta := Some ?th, post_theta := Some (map (\<lambda>x. x / ?c) ?p), C := Some ?c\<rparr>)"
    by (rule closed_form_cell_eq)
  have 2: "?th ! 0 = 0" "?th ! 999 = 1" by (simp_all add: script_grid_nth)
  have 3: "?p ! 0 = 0" "?p ! 999 = 0" by (simp_all add: script_unnormalised_nth post_theta_at_def)
  have 4: "\<forall>x\<in>set ?p. 0 \<le> x \<and> x \<le> 1" using script_unnormalised_range by blast
  have 5: "riemann ?th ?p = Inr ?c" by (rule script_riemann)
  have 6: "0 < ?c" using script_sum_pos by simp
  from 1 2 3 4 5 6 show ?thesis by blast
qed

text \<open>
  The statement from the fresh state, with the bound read at the second grid point.
\<close>

theorem closed_form_finite_witness:
  "unnormalised (linspace 0 1 1000) ! 1 \<in> set (unnormalised (linspace 0 1 1000))
   \<and> 0 \<le> unnormalised (linspace 0 1 1000) ! 1 \<and> unnormalised (linspace 0 1 1000) ! 1 \<le> 1
   \<and> (\<exists>c>0. closed_form_cell fresh =
         Inr (fresh\<lparr>theta := Some (linspace 0 1 1000),
                    post_theta := Some (map (\<lambda>x. x / c) (unnormalised (linspace 0 1 1000))),
                    C := Some c\<rparr>))"
proof -
  have m: "unnormalised (linspace 0 1 1000) ! 1 \<in> set (unnormalised (linspace 0 1 1000))"
    by (rule nth_mem) (simp add: unnormalised_def linspace_length)
  from closed_form_finite [of fresh] m show ?thesis by blast
qed

text \<open>
  Claim C1.  The value that line 127 stores at grid index 500, where
  \<open>\<theta> = 500/999\<close>, is \<open>\<theta>\<^sup>9(1 - \<theta>)\<^sup>6\<close>; it is not the value
  \<open>\<theta>\<^sup>8(1 - \<theta>)\<^sup>5\<close> of the Beta(9,6) kernel.
\<close>

theorem unnormalised_exponents:
  "unnormalised (linspace 0 1 1000) ! 500 = (500 / 999) ^ 9 * (499 / 999) ^ 6
   \<and> unnormalised (linspace 0 1 1000) ! 500 \<noteq> (500 / 999) ^ 8 * (499 / 999) ^ 5"
  by (simp add: script_unnormalised_nth post_theta_at_def power_divide)

section \<open>Where the evaluated density peaks\<close>

lemma post_theta_at_deriv:
  "(post_theta_at has_real_derivative (3 * t ^ 8 * (1 - t) ^ 5 * (3 - 5 * t))) (at t)"
  unfolding post_theta_at_def
  by (auto intro!: derivative_eq_intros simp add: algebra_simps power_eq_if)

lemma post_theta_at_continuous: "continuous_on A post_theta_at"
  unfolding post_theta_at_def by (intro continuous_intros)

lemma post_theta_at_increasing:
  assumes "0 \<le> a" and "a < b" and "b \<le> 3 / 5"
  shows "post_theta_at a < post_theta_at b"
proof (rule DERIV_pos_imp_increasing_open [OF assms(2)])
  fix x :: real
  assume x: "a < x" "x < b"
  with assms have "0 < x" "0 < 1 - x" "0 < 3 - 5 * x" by simp_all
  then have "0 < 3 * x ^ 8 * (1 - x) ^ 5 * (3 - 5 * x)" by simp
  with post_theta_at_deriv [of x]
  show "\<exists>y. (post_theta_at has_real_derivative y) (at x) \<and> 0 < y" by blast
next
  show "continuous_on {a..b} post_theta_at" by (rule post_theta_at_continuous)
qed

lemma post_theta_at_decreasing:
  assumes "3 / 5 \<le> a" and "a < b" and "b \<le> 1"
  shows "post_theta_at b < post_theta_at a"
proof (rule DERIV_neg_imp_decreasing_open [OF assms(2)])
  fix x :: real
  assume x: "a < x" "x < b"
  with assms have "0 < x" "0 < 1 - x" "3 - 5 * x < 0" by simp_all
  then have "0 < 3 * x ^ 8 * (1 - x) ^ 5" by simp
  from this \<open>3 - 5 * x < 0\<close> have "3 * x ^ 8 * (1 - x) ^ 5 * (3 - 5 * x) < 0"
    by (rule mult_pos_neg)
  with post_theta_at_deriv [of x]
  show "\<exists>y. (post_theta_at has_real_derivative y) (at x) \<and> y < 0" by blast
next
  show "continuous_on {a..b} post_theta_at" by (rule post_theta_at_continuous)
qed

lemma post_theta_at_max:
  assumes "0 \<le> t" and "t \<le> 1" and "t \<noteq> 3 / 5"
  shows "post_theta_at t < post_theta_at (3 / 5)"
proof (cases "t < 3 / 5")
  case True
  with assms(1) show ?thesis by (intro post_theta_at_increasing) simp_all
next
  case False
  with assms(3) have "3 / 5 < t" by simp
  with assms(2) show ?thesis by (intro post_theta_at_decreasing) simp_all
qed

lemma grid_neighbours: "post_theta_at (600 / 999) < post_theta_at (599 / 999)"
  by (simp add: post_theta_at_def power_divide)

lemma grid_peak:
  assumes "i < 1000" and "i \<noteq> 599"
  shows "post_theta_at (real i / 999) < post_theta_at (599 / 999)"
proof (cases "i < 599")
  case True
  then have "real i / 999 < 599 / 999" by simp
  then show ?thesis by (intro post_theta_at_increasing) simp_all
next
  case False
  with assms have i: "600 \<le> i" by simp
  show ?thesis
  proof (cases "i = 600")
    case True
    then show ?thesis using grid_neighbours by simp
  next
    case False
    with i have "600 < i" by simp
    then have "(600::real) / 999 < real i / 999" by simp
    moreover from assms(1) have "real i / 999 \<le> 1" by simp
    ultimately have "post_theta_at (real i / 999) < post_theta_at (600 / 999)"
      by (intro post_theta_at_decreasing) simp_all
    with grid_neighbours show ?thesis by simp
  qed
qed

lemma script_normalised_peak:
  assumes "0 < c" and "i < 1000" and "i \<noteq> 599"
  shows "map (\<lambda>x. x / c) (unnormalised (linspace 0 1 1000)) ! i
       < map (\<lambda>x. x / c) (unnormalised (linspace 0 1 1000)) ! 599"
proof -
  have "post_theta_at (real i / 999) / c < post_theta_at (599 / 999) / c"
    using grid_peak [OF assms(2,3)] assms(1) by (rule divide_strict_right_mono)
  with assms(2) show ?thesis
    by (simp add: unnormalised_def linspace_length script_grid_nth)
qed

text \<open>
  Claim C10.  On the interval from 0 to 1 the function of line 127 is strictly below its
  value at \<open>9/15\<close> everywhere else.  The curve that the closed-form cell stores for the plot
  has its largest entry at grid index 599, and that grid point is less than one grid step
  away from \<open>9/15\<close>.
\<close>

theorem post_theta_peak:
  "(0 \<le> t \<and> t \<le> 1 \<and> t \<noteq> 9 / 15 \<longrightarrow> post_theta_at t < post_theta_at (9 / 15))
   \<and> (\<exists>th q c. closed_form_cell s =
            Inr (s\<lparr>theta := Some th, post_theta := Some q, C := Some c\<rparr>)
        \<and> (\<forall>i. i < 1000 \<and> i \<noteq> 599 \<longrightarrow> q ! i < q ! 599)
        \<and> \<bar>th ! 599 - 9 / 15\<bar> < 1 / 999)"
proof (intro conjI impI)
  assume "0 \<le> t \<and> t \<le> 1 \<and> t \<noteq> 9 / 15"
  then show "post_theta_at t < post_theta_at (9 / 15)"
    using post_theta_at_max [of t] by simp
next
  let ?th = "linspace 0 1 1000"
  let ?c = "sum_list (unnormalised ?th) / 999"
  let ?q = "map (\<lambda>x. x / ?c) (unnormalised ?th)"
  have c: "0 < ?c" using script_sum_pos by simp
  have 1: "closed_form_cell s =
      Inr (s\<lparr>theta := Some ?th, post_theta := Some ?q, C := Some ?c\<rparr>)"
    by (rule closed_form_cell_eq)
  have 2: "\<forall>i. i < 1000 \<and> i \<noteq> 599 \<longrightarrow> ?q ! i < ?q ! 599"
    using script_normalised_peak [OF c] by blast
  have 3: "\<bar>?th ! 599 - 9 / 15\<bar> < 1 / 999"
    by (simp add: script_grid_nth)
  from 1 2 3 show "\<exists>th q c. closed_form_cell s =
            Inr (s\<lparr>theta := Some th, post_theta := Some q, C := Some c\<rparr>)
        \<and> (\<forall>i. i < 1000 \<and> i \<noteq> 599 \<longrightarrow> q ! i < q ! 599)
        \<and> \<bar>th ! 599 - 9 / 15\<bar> < 1 / 999"
    by blast
qed

text \<open>
  The statement at \<open>t = 1/2\<close>, from the fresh state and at grid index 600.
\<close>

theorem post_theta_peak_witness:
  "post_theta_at (1 / 2) < post_theta_at (9 / 15)
   \<and> (\<exists>th q c. closed_form_cell fresh =
            Inr (fresh\<lparr>theta := Some th, post_theta := Some q, C := Some c\<rparr>)
        \<and> q ! 600 < q ! 599)"
proof -
  have "(0::real) \<le> 1 / 2 \<and> (1::real) / 2 \<le> 1 \<and> (1::real) / 2 \<noteq> 9 / 15" by simp
  moreover have "(600::nat) < 1000 \<and> (600::nat) \<noteq> 599" by simp
  ultimately show ?thesis using post_theta_peak [of "1 / 2" fresh] by blast
qed

section \<open>The reported estimate\<close>

lemma sum_list_drop_nth:
  "sum_list (drop k xs) = (\<Sum>i = k..<max k (length xs). xs ! i :: real)"
proof -
  have "sum_list (drop k xs) = (\<Sum>i = 0..<length xs - k. drop k xs ! i)"
    by (simp add: sum_list_sum_nth)
  also have "\<dots> = (\<Sum>i = 0..<length xs - k. xs ! (i + k))"
    by (intro sum.cong) (simp_all add: add.commute)
  also have "\<dots> = (\<Sum>i = 0 + k..<length xs - k + k. xs ! i)"
    by (rule sum.shift_bounds_nat_ivl [symmetric])
  also have "length xs - k + k = max k (length xs)" by simp
  finally show ?thesis by simp
qed

text \<open>
  Claim C5.  When the sampler returned the 10000 draws that were requested, the reported
  number is the sum of the draws at indices 1000 to 9999 divided by 9000, that is the
  arithmetic mean of the trace without its first 1000 entries; the histogram receives the
  same 9000 entries, whose entry \<open>j\<close> is draw \<open>1000 + j\<close>.
\<close>

theorem reported_estimate:
  assumes "length draws = 10000"
  shows "niter (model_cell draws s) = Some 10000
     \<and> mean_cell (model_cell draws s) = Inr ((\<Sum>i = 1000..<10000. draws ! i) / 9000)
     \<and> mean_cell (model_cell draws s) = np_mean (drop 1000 draws)
     \<and> hist_cell (model_cell draws s) = Inr (drop 1000 draws, 100)
     \<and> length (drop 1000 draws) = 9000
     \<and> (j < 9000 \<longrightarrow> drop 1000 draws ! j = draws ! (1000 + j))"
proof -
  have l: "length (drop 1000 draws) = 9000" using assms by simp
  then have ne: "drop 1000 draws \<noteq> []" by auto
  have "sum_list (drop 1000 draws) = (\<Sum>i = 1000..<10000. draws ! i)"
    using assms by (simp add: sum_list_drop_nth)
  with ne l have "np_mean (drop 1000 draws) = Inr ((\<Sum>i = 1000..<10000. draws ! i) / 9000)"
    by (simp add: np_mean_def)
  moreover have "j < 9000 \<longrightarrow> drop 1000 draws ! j = draws ! (1000 + j)"
    using assms by simp
  ultimately show ?thesis using l
    by (simp add: model_cell_def mean_cell_def hist_cell_def)
qed

text \<open>
  The statement for a trace of 10000 draws all equal to \<open>3/5\<close>.
\<close>

theorem reported_estimate_witness:
  "length (replicate 10000 (3 / 5 :: real)) = 10000
   \<and> mean_cell (model_cell (replicate 10000 (3 / 5)) fresh) = Inr (3 / 5)
   \<and> hist_cell (model_cell (replicate 10000 (3 / 5)) fresh) = Inr (replicate 9000 (3 / 5), 100)
   \<and> drop 1000 (replicate 10000 (3 / 5 :: real)) ! 0 = replicate 10000 (3 / 5) ! (1000 + 0)"
proof -
  have h: "length (replicate 10000 (3 / 5 :: real)) = 10000" by simp
  have m: "np_mean (drop 1000 (replicate 10000 (3 / 5 :: real))) = Inr (3 / 5)"
    by (simp add: np_mean_def sum_list_replicate)
  from reported_estimate [OF h, of fresh 0] m h show ?thesis by simp
qed

section \<open>The conjugate update and the independence of the closed-form cell\<close>

lemma binary_counts:
  assumes "\<forall>y\<in>set ys. y = 0 \<or> y = (1::real)"
  shows "successes ys + failures ys = length ys"
  using assms by (induction ys) (auto simp add: successes_def failures_def)

lemma binary_sum:
  assumes "\<forall>y\<in>set ys. y = 0 \<or> y = (1::real)"
  shows "sum_list ys = real (successes ys)"
  using assms by (induction ys) (auto simp add: successes_def)

lemma binary_sum_compl:
  assumes "\<forall>y\<in>set ys. y = 0 \<or> y = (1::real)"
  shows "sum_list (map (\<lambda>y. 1 - y) ys) = real (failures ys)"
  using assms by (induction ys) (auto simp add: failures_def)

lemma script_y_obs: "assign_prefix (zeros 10) 7 1 = [1, 1, 1, 1, 1, 1, 1, 0, 0, 0]"
  by (simp add: assign_prefix_def zeros_def eval_nat_numeral)

text \<open>
  Claim C2.  For positive \<open>a\<close> and \<open>b\<close> and binary data of length \<open>n\<close> with \<open>k\<close> ones
  the posterior parameters are \<open>(a + k, b + n - k)\<close>; they are also
  \<open>(a + \<Sum> y\<^sub>i, b + \<Sum> (1 - y\<^sub>i))\<close> and both are positive.  The data of the model cell are
  seven ones followed by three zeros, for which the prior \<open>(2, 3)\<close> gives \<open>(9, 6)\<close>.
\<close>

theorem conjugate_update:
  assumes "0 < a" and "0 < b" and "\<forall>y\<in>set ys. y = 0 \<or> y = 1"
    and "length ys = n" and "successes ys = k"
  shows "posterior_params a b ys = (a + real k, b + real n - real k)
     \<and> posterior_params a b ys = (a + sum_list ys, b + sum_list (map (\<lambda>y. 1 - y) ys))
     \<and> 0 < fst (posterior_params a b ys) \<and> 0 < snd (posterior_params a b ys)
     \<and> y_obs (model_cell draws s) = Some [1, 1, 1, 1, 1, 1, 1, 0, 0, 0]
     \<and> posterior_params 2 3 [1, 1, 1, 1, 1, 1, 1, 0, 0, 0] = (9, 6)"
proof -
  from binary_counts [OF assms(3)] assms(4,5)
  have f: "real (failures ys) = real n - real k" by linarith
  have 1: "posterior_params a b ys = (a + real k, b + real n - real k)"
    using f assms(5) by (simp add: posterior_params_def)
  have 2: "posterior_params a b ys = (a + sum_list ys, b + sum_list (map (\<lambda>y. 1 - y) ys))"
    using assms(3) by (simp add: posterior_params_def binary_sum binary_sum_compl)
  have 3: "0 < fst (posterior_params a b ys)" "0 < snd (posterior_params a b ys)"
    using assms(1,2) by (simp_all add: posterior_params_def add_pos_nonneg)
  have 4: "y_obs (model_cell draws s) = Some [1, 1, 1, 1, 1, 1, 1, 0, 0, 0]"
    by (simp add: model_cell_def script_y_obs)
  have 5: "posterior_params 2 3 [1, 1, 1, 1, 1, 1, 1, 0, 0, 0] = (9, 6)"
    by (simp add: posterior_params_def successes_def failures_def)
  from 1 2 3 4 5 show ?thesis by simp
qed

text \<open>
  The statement at the uniform prior \<open>(1, 1)\<close> and five successes out of five.
\<close>

theorem conjugate_update_witness:
  "(0::real) < 1 \<and> length [1, 1, 1, 1, 1 :: real] = 5 \<and> successes [1, 1, 1, 1, 1] = 5
   \<and> list_all (\<lambda>y. y = 0 \<or> y = 1) [1, 1, 1, 1, 1 :: real]
   \<and> posterior_params 1 1 [1, 1, 1, 1, 1] = (6, 1)"
proof -
  have h: "(0::real) < 1" "\<forall>y\<in>set [1, 1, 1, 1, 1 :: real]. y = 0 \<or> y = 1"
    "length [1, 1, 1, 1, 1 :: real] = 5" "successes [1, 1, 1, 1, 1] = 5"
    by (simp_all add: successes_def)
  from conjugate_update [OF h(1) h(1) h(2) h(3) h(4), of "[]" fresh] h show ?thesis by simp
qed

text \<open>
  Claim C9.  There is one grid, one normalised density and one constant that the
  closed-form cell stores whatever the state it starts from, in particular whatever the
  sampler returned before; running the cell again on its own result changes nothing.
\<close>

theorem closed_form_deterministic:
  "\<exists>th q c. \<forall>s.
      closed_form_cell s = Inr (s\<lparr>theta := Some th, post_theta := Some q, C := Some c\<rparr>)
    \<and> closed_form_cell (s\<lparr>theta := Some th, post_theta := Some q, C := Some c\<rparr>)
        = Inr (s\<lparr>theta := Some th, post_theta := Some q, C := Some c\<rparr>)"
proof (intro exI allI conjI)
  fix s
  show "closed_form_cell s =
     Inr (s\<lparr>theta := Some (linspace 0 1 1000),
            post_theta := Some (map (\<lambda>x. x / (sum_list (unnormalised (linspace 0 1 1000)) / 999))
                                  (unnormalised (linspace 0 1 1000))),
            C := Some (sum_list (unnormalised (linspace 0 1 1000)) / 999)\<rparr>)"
    by (rule closed_form_cell_eq)
  then show "closed_form_cell (s\<lparr>theta := Some (linspace 0 1 1000),
            post_theta := Some (map (\<lambda>x. x / (sum_list (unnormalised (linspace 0 1 1000)) / 999))
                                  (unnormalised (linspace 0 1 1000))),
            C := Some (sum_list (unnormalised (linspace 0 1 1000)) / 999)\<rparr>) =
     Inr (s\<lparr>theta := Some (linspace 0 1 1000),
            post_theta := Some (map (\<lambda>x. x / (sum_list (unnormalised (linspace 0 1 1000)) / 999))
                                  (unnormalised (linspace 0 1 1000))),
            C := Some (sum_list (unnormalised (linspace 0 1 1000)) / 999)\<rparr>)"
    by (simp add: closed_form_cell_eq)
qed

section \<open>The grid mean of the evaluated density\<close>

lemma wacc_acc: "wacc n i acc = acc + wacc n i 0"
proof (induction n arbitrary: i acc)
  case 0
  show ?case by simp
next
  case (Suc n)
  have "wacc (Suc n) i acc = wacc n (i + 1) (acc + weight i)" by simp
  also have "\<dots> = acc + weight i + wacc n (i + 1) 0" by (rule Suc.IH)
  also have "\<dots> = acc + wacc n (i + 1) (weight i)" using Suc.IH [of "i + 1" "weight i"] by simp
  finally show ?case by simp
qed

lemma wacc_add: "wacc (m + n) i acc = wacc n (i + int m) (wacc m i acc)"
proof (induction m arbitrary: i acc)
  case 0
  show ?case by simp
next
  case (Suc m)
  have "wacc (Suc m + n) i acc = wacc (m + n) (i + 1) (acc + weight i)" by simp
  also have "\<dots> = wacc n (i + 1 + int m) (wacc m (i + 1) (acc + weight i))" by (rule Suc.IH)
  also have "i + 1 + int m = i + int (Suc m)" by simp
  also have "wacc m (i + 1) (acc + weight i) = wacc (Suc m) i acc" by simp
  finally show ?case .
qed

lemma wacc_sum_list: "wacc n 0 0 = sum_list (map (\<lambda>k. weight (int k)) [0..<n])"
proof (induction n)
  case 0
  show ?case by simp
next
  case (Suc n)
  have "wacc (Suc n) 0 0 = wacc (n + 1) 0 0" by simp
  also have "\<dots> = wacc 1 (0 + int n) (wacc n 0 0)" by (rule wacc_add)
  also have "\<dots> = wacc n 0 0 + weight (int n)" by (simp add: eval_nat_numeral)
  finally show ?case using Suc.IH by simp
qed

lemma chunk1: "wacc 250 0 0 = - 734073365097570359619716725364191865084792000"
  by code_simp

lemma chunk2: "wacc 250 250 0 = - 43880247800773645729612436767327455250142992000"
  by code_simp

lemma chunk3: "wacc 250 500 0 = 22815061385323920324054009777176666899648808000"
  by code_simp

lemma chunk4: "wacc 250 750 0 = 19632745436713575755507475158057254209290608000"
  by code_simp

lemma wacc_script: "wacc 1000 0 0 = - 2166514343833720009670668557457726006288368000"
proof -
  have "wacc 1000 0 0 = wacc 750 250 (wacc 250 0 0)"
    using wacc_add [of 250 750 0 0] by simp
  also have "\<dots> = wacc 250 0 0 + wacc 750 250 0" by (rule wacc_acc)
  also have "wacc 750 250 0 = wacc 500 500 (wacc 250 250 0)"
    using wacc_add [of 250 500 250 0] by simp
  also have "\<dots> = wacc 250 250 0 + wacc 500 500 0" by (rule wacc_acc)
  also have "wacc 500 500 0 = wacc 250 750 (wacc 250 500 0)"
    using wacc_add [of 250 250 500 0] by simp
  also have "\<dots> = wacc 250 500 0 + wacc 250 750 0" by (rule wacc_acc)
  finally show ?thesis by (simp add: chunk1 chunk2 chunk3 chunk4)
qed

lemma script_grid_map: "linspace 0 1 1000 = map (\<lambda>i. real i / 999) [0..<1000]"
  by (rule nth_equalityI) (simp_all add: linspace_length script_grid_nth)

lemma map2_same: "map2 f xs (map g xs) = map (\<lambda>x. f x (g x)) xs"
  by (induction xs) simp_all

lemma sum_list_of_int_div:
  "sum_list (map (\<lambda>i. real_of_int (g i) / d) xs) = real_of_int (sum_list (map g xs)) / d"
  by (induction xs) (simp_all add: add_divide_distrib)

lemma sum_list_shifted:
  "sum_list (map (\<lambda>t. (100 * t - 59) * w t) th)
     = 100 * sum_list (map (\<lambda>t. t * w t) th) - 59 * sum_list (map w th :: real list)"
  by (induction th) (simp_all add: algebra_simps)

lemma weight_at_grid:
  "(100 * (real i / 999) - 59) * post_theta_at (real i / 999)
     = real_of_int (weight (int i)) / 999 ^ 16"
proof -
  define x where "x = real i"
  have a: "100 * (x / 999) - 59 = (100 * x - 58941) / 999" by simp
  have b: "1 - x / 999 = (999 - x) / 999" by simp
  have "(100 * (x / 999) - 59) * ((x / 999) ^ 9 * (1 - x / 999) ^ 6)
      = (100 * x - 58941) / 999 * (x ^ 9 / 999 ^ 9 * ((999 - x) ^ 6 / 999 ^ 6))"
    unfolding a b by (simp only: power_divide)
  also have "\<dots> = ((100 * x - 58941) * x ^ 9 * (999 - x) ^ 6) / (999 * 999 ^ 9 * 999 ^ 6)"
    by (simp only: times_divide_times_eq mult.assoc)
  also have "(999 * 999 ^ 9 * 999 ^ 6 :: real) = 999 ^ 16"
    by (simp only: power_add [symmetric] power_Suc [symmetric]) simp
  also have "(100 * x - 58941) * x ^ 9 * (999 - x) ^ 6 = real_of_int (weight (int i))"
    by (simp add: weight_def x_def)
  finally show ?thesis by (simp add: post_theta_at_def x_def)
qed

lemma script_shifted_sum:
  "sum_list (map (\<lambda>t. (100 * t - 59) * post_theta_at t) (linspace 0 1 1000)) < 0"
proof -
  have "sum_list (map (\<lambda>t. (100 * t - 59) * post_theta_at t) (linspace 0 1 1000))
      = sum_list (map (\<lambda>i. real_of_int (weight (int i)) / 999 ^ 16) [0..<1000])"
    by (simp only: script_grid_map map_map o_def weight_at_grid)
  also have "\<dots> = real_of_int (wacc 1000 0 0) / 999 ^ 16"
    by (simp only: sum_list_of_int_div wacc_sum_list)
  also have "\<dots> < 0" by (simp only: wacc_script) simp
  finally show ?thesis .
qed

lemma sum_list_map_div:
  "sum_list (map (\<lambda>t. f t / c) xs) = sum_list (map f xs) / (c::real)"
  by (induction xs) (simp_all add: add_divide_distrib)

lemma script_grid_mean:
  assumes "c \<noteq> 0"
  shows "grid_mean (linspace 0 1 1000) (map (\<lambda>x. x / c) (unnormalised (linspace 0 1 1000)))
     = Inr (sum_list (map (\<lambda>t. t * post_theta_at t) (linspace 0 1 1000)) / c / 999)"
proof -
  have "map2 (\<lambda>t x. t * x) (linspace 0 1 1000)
          (map (\<lambda>x. x / c) (unnormalised (linspace 0 1 1000)))
      = map (\<lambda>t. t * post_theta_at t / c) (linspace 0 1 1000)"
    by (simp only: unnormalised_def map_map o_def map2_same times_divide_eq_right)
  then show ?thesis
    by (simp only: grid_mean_def script_riemann sum_list_map_div)
qed

text \<open>
  Claim C3.  For the grid and the normalised density that the closed-form cell stores, the
  Riemann-sum mean is below \<open>0.59\<close>, more than \<open>0.01\<close> (ten grid steps) away from
  \<open>9/15\<close>.
\<close>

theorem grid_mean_off:
  "\<exists>th q c m. closed_form_cell fresh =
        Inr (fresh\<lparr>theta := Some th, post_theta := Some q, C := Some c\<rparr>)
     \<and> grid_mean th q = Inr m \<and> m < 59 / 100 \<and> 1 / 100 < \<bar>m - 9 / 15\<bar>"
proof -
  let ?th = "linspace 0 1 1000"
  let ?S = "sum_list (unnormalised ?th)"
  let ?T = "sum_list (map (\<lambda>t. t * post_theta_at t) ?th)"
  let ?c = "?S / 999"
  let ?q = "map (\<lambda>x. x / ?c) (unnormalised ?th)"
  have S: "0 < ?S" by (rule script_sum_pos)
  then have c: "?c \<noteq> 0" by simp
  have run: "closed_form_cell fresh =
      Inr (fresh\<lparr>theta := Some ?th, post_theta := Some ?q, C := Some ?c\<rparr>)"
    by (rule closed_form_cell_eq)
  have "grid_mean ?th ?q = Inr (?T / ?c / 999)" using c by (rule script_grid_mean)
  also have "?T / ?c / 999 = ?T / ?S" using S by simp
  finally have gm: "grid_mean ?th ?q = Inr (?T / ?S)" .
  have "100 * ?T - 59 * ?S < 0"
    using script_shifted_sum by (simp only: sum_list_shifted unnormalised_def)
  then have "100 * ?T < 59 * ?S" by simp
  with S have m: "?T / ?S < 59 / 100" by (simp add: field_simps)
  then have "1 / 100 < \<bar>?T / ?S - 9 / 15\<bar>" by linarith
  with run gm m show ?thesis by blast
qed

end
